theory Spec2Isabelle
  imports Complex_Main "HOL-Library.Word"
begin

unbundle bit_operations_syntax

section \<open>Python values, exceptions and byte strings\<close>

text \<open>
  The exceptions that the modelled code can raise. A computation that may raise has
  the type \<open>py_error + 'a\<close>, with \<open>Inl\<close> for the exception.
\<close>

datatype py_error =
  StructError | ValueError | IndexError | KeyError | AttributeError | TypeError
  | UnicodeEncodeError

type_synonym byte = "8 word"
type_synonym bytes = "byte list"

text \<open>\<open>m >>= f\<close> for computations that may raise.\<close>

definition bind_r :: "py_error + 'a \<Rightarrow> ('a \<Rightarrow> py_error + 'b) \<Rightarrow> py_error + 'b" where
  "bind_r m f = (case m of Inl e \<Rightarrow> Inl e | Inr x \<Rightarrow> f x)"

text \<open>Python's \<open>xs[a:b]\<close> for \<open>0 \<le> a \<le> b\<close>: it never raises, it truncates.\<close>

definition slice :: "'a list \<Rightarrow> nat \<Rightarrow> nat \<Rightarrow> 'a list" where
  "slice xs a b = take (b - a) (drop a xs)"

text \<open>Python's \<open>body[i]\<close> on bytes, for \<open>0 \<le> i\<close>: the byte as an integer, or IndexError.\<close>

definition index :: "bytes \<Rightarrow> nat \<Rightarrow> py_error + nat" where
  "index body i = (if i < length body then Inr (unat (body ! i)) else Inl IndexError)"

text \<open>Big-endian value of a byte string.\<close>

definition be_nat :: "bytes \<Rightarrow> nat" where
  "be_nat bs = foldl (\<lambda>acc b. acc * 256 + unat b) 0 bs"

text \<open>
  \<open>struct.unpack\<close> raises \<open>struct.error\<close> unless the buffer has exactly the size of
  the format: 6 for \<open>">BBBBBB"\<close>, 8 for \<open>">II"\<close>, 2 for \<open>">H"\<close>, 4 for \<open>">I"\<close>.
\<close>

definition unpack_BBBBBB :: "bytes \<Rightarrow> py_error + (nat \<times> nat \<times> nat \<times> nat \<times> nat \<times> nat)" where
  "unpack_BBBBBB bs =
     (case bs of
        [a, b, c, d, e, f] \<Rightarrow> Inr (unat a, unat b, unat c, unat d, unat e, unat f)
      | _ \<Rightarrow> Inl StructError)"

definition unpack_II :: "bytes \<Rightarrow> py_error + (nat \<times> nat)" where
  "unpack_II bs =
     (if length bs = 8 then Inr (be_nat (take 4 bs), be_nat (drop 4 bs)) else Inl StructError)"

definition unpack_H :: "bytes \<Rightarrow> py_error + nat" where
  "unpack_H bs = (if length bs = 2 then Inr (be_nat bs) else Inl StructError)"

definition unpack_I :: "bytes \<Rightarrow> py_error + nat" where
  "unpack_I bs = (if length bs = 4 then Inr (be_nat bs) else Inl StructError)"

subsection \<open>datetime\<close>

record datetime =
  year :: nat
  month :: nat
  day :: nat
  hour :: nat
  minute :: nat
  second :: nat
  microsecond :: nat

definition is_leap :: "nat \<Rightarrow> bool" where
  "is_leap y = (y mod 4 = 0 \<and> (y mod 100 \<noteq> 0 \<or> y mod 400 = 0))"

definition days_in_month :: "nat \<Rightarrow> nat \<Rightarrow> nat" where
  "days_in_month y m =
     (if m = 2 then (if is_leap y then 29 else 28)
      else if m = 4 \<or> m = 6 \<or> m = 9 \<or> m = 11 then 30 else 31)"

text \<open>
  The constructor \<open>datetime(y, m, d, H, M, S)\<close>: ValueError unless the year is in
  \<open>1..9999\<close>, the month in \<open>1..12\<close>, the day in the month, and the time of day valid.
\<close>

definition valid_datetime :: "nat \<Rightarrow> nat \<Rightarrow> nat \<Rightarrow> nat \<Rightarrow> nat \<Rightarrow> nat \<Rightarrow> bool" where
  "valid_datetime y m d H M S =
     (1 \<le> y \<and> y \<le> 9999 \<and> 1 \<le> m \<and> m \<le> 12 \<and> 1 \<le> d \<and> d \<le> days_in_month y m
      \<and> H < 24 \<and> M < 60 \<and> S < 60)"

definition mk_datetime :: "nat \<Rightarrow> nat \<Rightarrow> nat \<Rightarrow> nat \<Rightarrow> nat \<Rightarrow> nat \<Rightarrow> py_error + datetime" where
  "mk_datetime y m d H M S =
     (if valid_datetime y m d H M S
      then Inr \<lparr>year = y, month = m, day = d, hour = H, minute = M, second = S,
                microsecond = 0\<rparr>
      else Inl ValueError)"

subsection \<open>float\<close>

text \<open>
  A Python float is kept as its sign bit and its magnitude. The magnitude is the exact
  quotient: the rounding of the division to a double is not modelled. The sign bit is
  kept apart because \<open>-abs(0.0)\<close> is the negative zero, which is \<open>>= 0\<close> and prints
  with a minus sign.
\<close>

record pyfloat =
  negative :: bool
  magnitude :: rat

definition float_div :: "nat \<Rightarrow> rat \<Rightarrow> pyfloat" where
  \<comment> \<open>\<open>n / c\<close> for an unsigned integer \<open>n\<close> and a positive constant \<open>c\<close>\<close>
  "float_div n c = \<lparr>negative = False, magnitude = of_nat n / c\<rparr>"

definition float_abs :: "pyfloat \<Rightarrow> pyfloat" where
  "float_abs x = x\<lparr>negative := False\<rparr>"

definition float_neg :: "pyfloat \<Rightarrow> pyfloat" where
  "float_neg x = x\<lparr>negative := \<not> negative x\<rparr>"

definition float_val :: "pyfloat \<Rightarrow> rat" where
  "float_val x = (if negative x then - magnitude x else magnitude x)"

definition float_ge0 :: "pyfloat \<Rightarrow> bool" where
  \<comment> \<open>\<open>x >= 0\<close>\<close>
  "float_ge0 x = (0 \<le> float_val x)"

section \<open>The location record\<close>

text \<open>
  \<open>location_data\<close> is a Python dict; a key that is absent is \<open>None\<close> here. The
  timestamp is a datetime in a decoded record and a string in the record read back from
  the cache (\<open>handle_location_packet\<close> stores it with \<open>strftime\<close>).
\<close>

datatype ts_value = Dt datetime | IsoStr string

record location_data =
  timestamp :: "ts_value option"
  satellites :: "nat option"
  speed_kmh :: "nat option"
  latitude :: "pyfloat option"
  longitude :: "pyfloat option"
  direction :: "nat option"
  status_bits :: "nat option"
  is_realtime :: "bool option"
  gps_odometer :: "nat option"

definition empty_dict :: location_data where
  "empty_dict = \<lparr>timestamp = None, satellites = None, speed_kmh = None, latitude = None,
     longitude = None, direction = None, status_bits = None, is_realtime = None,
     gps_odometer = None\<rparr>"

section \<open>decode_location_packet (mapper.py)\<close>

text \<open>
  Lines 35 to 60: the fixed layout. Every statement that can raise is a step of the
  chain, in the order of the source. The result is the dict and \<open>gps_fixed\<close>.
\<close>

definition decode_fixed :: "bytes \<Rightarrow> py_error + (location_data \<times> nat)" where
  "decode_fixed body =
     bind_r (unpack_BBBBBB (slice body 0 6)) (\<lambda>(yy, mo, dd, hh, mi, ss).
     bind_r (mk_datetime (2000 + yy) mo dd hh mi ss) (\<lambda>ts.
     bind_r (index body 6) (\<lambda>sats_byte.
     bind_r (unpack_II (slice body 7 15)) (\<lambda>(lat_raw, lon_raw).
       let lat = float_div lat_raw 1800000;
           lon = float_div lon_raw 1800000
       in
     bind_r (index body 15) (\<lambda>speed.
     bind_r (unpack_H (slice body 16 18)) (\<lambda>course_status.
       let is_latitude_north = drop_bit 10 course_status AND 1;
           is_longitude_west = drop_bit 11 course_status AND 1;
           gps_fixed = drop_bit 12 course_status AND 1
       in Inr (empty_dict\<lparr>
             timestamp := Some (Dt ts),
             satellites := Some (sats_byte AND 0x0F),
             speed_kmh := Some speed,
             latitude := Some (if is_latitude_north = 0 then float_neg (float_abs lat)
                               else float_abs lat),
             longitude := Some (if is_longitude_west \<noteq> 0 then float_neg (float_abs lon)
                                else float_abs lon),
             direction := Some (course_status AND 0x03FF)\<rparr>, gps_fixed)))))))"

text \<open>Lines 65 to 69.\<close>

definition mnc_length :: "nat \<Rightarrow> nat" where
  "mnc_length mcc = (if drop_bit 15 mcc AND 1 \<noteq> 0 then 2 else 1)"

definition acc_at :: "nat \<Rightarrow> nat" where
  "acc_at mcc = 20 + mnc_length mcc + 4 + 8"

text \<open>
  Lines 62 to 86: the inner \<open>try\<close>. The dict is updated as the block goes, so the block
  gives the dict as it is when the block ends or raises, and the exception if it raised.
\<close>

definition trailing_block :: "bytes \<Rightarrow> nat \<Rightarrow> location_data \<Rightarrow> location_data \<times> py_error option" where
  "trailing_block body gps_fixed data =
     (case unpack_H (slice body 18 20) of
        Inl e \<Rightarrow> (data, Some e)
      | Inr mcc \<Rightarrow>
     (case index body (acc_at mcc) of
        Inl e \<Rightarrow> (data, Some e)
      | Inr acc_status \<Rightarrow>
          let status_bits0 = 0;
              status_bits1 = (if gps_fixed = 1 then status_bits0 OR 2 else status_bits0);
              status_bits2 = (if acc_status = 1 then status_bits1 OR 1 else status_bits1);
              data1 = data\<lparr>status_bits := Some status_bits2\<rparr>
          in
     (case index body (acc_at mcc + 2) of
        Inl e \<Rightarrow> (data1, Some e)
      | Inr rt \<Rightarrow>
          let data2 = data1\<lparr>is_realtime := Some (rt = 0)\<rparr>;
              mileage_at = acc_at mcc + 3
          in
     (case unpack_I (slice body mileage_at (mileage_at + 4)) of
        Inl e \<Rightarrow> (data2, Some e)
      | Inr mileage_km \<Rightarrow> (data2\<lparr>gps_odometer := Some mileage_km\<rparr>, None)))))"

text \<open>\<open>except: pass\<close>: the exception is dropped and the dict kept.\<close>

definition decode_trailing :: "bytes \<Rightarrow> nat \<Rightarrow> location_data \<Rightarrow> location_data" where
  "decode_trailing body gps_fixed data = fst (trailing_block body gps_fixed data)"

text \<open>The body of the outer \<open>try\<close>, and the outer \<open>except Exception\<close>, which returns None.\<close>

definition decode_try :: "bytes \<Rightarrow> py_error + location_data option" where
  "decode_try body =
     bind_r (decode_fixed body) (\<lambda>(data, gps_fixed).
       Inr (Some (decode_trailing body gps_fixed data)))"

definition decode_location_packet :: "bytes \<Rightarrow> py_error + location_data option" where
  "decode_location_packet body =
     (case decode_try body of Inl e \<Rightarrow> Inr None | Inr r \<Rightarrow> Inr r)"

text \<open>
  The log lines of the decoder and of the handlers, one constructor for each call of the
  logger with the values it prints: \<open>DecodeFailed\<close> is the \<open>logger.exception\<close> of the
  decoder's outer handler (line 91), \<open>AlarmUnmapped\<close> is a warning, the others are
  \<open>logger.info\<close>. The debug lines of the encoders are not recorded.
\<close>

datatype log_event =
    DecodeFailed bytes
  | ShortAlarm bytes
  | AlarmNoTimestamp string
  | AlarmFromMemory string
  | AlarmTranslated nat nat string
  | AlarmUnmapped string nat
  | PacketTranslated string

definition decode_log :: "bytes \<Rightarrow> log_event list" where
  "decode_log body = (if decode_location_packet body = Inr None then [DecodeFailed body] else [])"

section \<open>Text formatting\<close>

text \<open>
  A \<open>string\<close> holds the code points below 256 of a Python str, one \<open>char\<close> for each.
  Among these \<open>str.isdigit\<close> is true of the ten decimal digits and of the superscripts
  two, three and one (U+00B2, U+00B3, U+00B9).
\<close>

definition isdigit :: "char \<Rightarrow> bool" where
  "isdigit c = (c \<in> set (''0123456789'' @ [CHR 0xB2, CHR 0xB3, CHR 0xB9]))"

definition digit_char :: "nat \<Rightarrow> char" where
  "digit_char n = ''0123456789'' ! n"

fun str_nat :: "nat \<Rightarrow> string" where
  "str_nat n = (if n < 10 then [digit_char n] else str_nat (n div 10) @ [digit_char (n mod 10)])"

declare str_nat.simps [simp del]

text \<open>\<open>str.zfill\<close>, the padding of \<open>%02d\<close>, \<open>%04d\<close> and of strftime's fields.\<close>

definition zfill :: "nat \<Rightarrow> string \<Rightarrow> string" where
  "zfill w s = replicate (w - length s) (CHR ''0'') @ s"

text \<open>\<open>";".join(fields)\<close>.\<close>

fun join :: "string \<Rightarrow> string list \<Rightarrow> string" where
  "join sep [] = []"
| "join sep [x] = x"
| "join sep (x # y # ys) = x @ sep @ join sep (y # ys)"

text \<open>
  \<open>f"{x:.6f}"\<close> and \<open>f"{x:.2f}"\<close> of a float: the magnitude rounded half to even at
  \<open>d\<close> decimals, after the sign.
\<close>

definition round_half_even :: "rat \<Rightarrow> nat" where
  "round_half_even q =
     (let f = nat \<lfloor>q\<rfloor>; r = q - of_nat f
      in if r < 1 / 2 then f else if 1 / 2 < r then f + 1
         else if even f then f else f + 1)"

definition fmt_f :: "nat \<Rightarrow> pyfloat \<Rightarrow> string" where
  "fmt_f d x =
     (let n = round_half_even (magnitude x * 10 ^ d)
      in (if negative x then ''-'' else []) @ str_nat (n div 10 ^ d) @ ''.''
         @ zfill d (str_nat (n mod 10 ^ d)))"

text \<open>\<open>f"{n:.2f}"\<close> of an int, as speed and direction are.\<close>

definition fmt_int_2f :: "nat \<Rightarrow> string" where
  "fmt_int_2f n = str_nat n @ ''.00''"

text \<open>
  \<open>strftime\<close>: the month, the day and the time of day are padded to two digits; the year
  of \<open>%Y\<close> is printed as it is, without padding (year 999 prints as \<open>999\<close>).
\<close>

definition strftime_Y :: "datetime \<Rightarrow> string" where
  "strftime_Y ts = str_nat (year ts)"

definition strftime_Ymd :: "datetime \<Rightarrow> string" where
  "strftime_Ymd ts =
     strftime_Y ts @ zfill 2 (str_nat (month ts)) @ zfill 2 (str_nat (day ts))"

definition strftime_HMS :: "datetime \<Rightarrow> string" where
  "strftime_HMS ts =
     zfill 2 (str_nat (hour ts)) @ '':'' @ zfill 2 (str_nat (minute ts)) @ '':''
     @ zfill 2 (str_nat (second ts))"

definition strftime_iso :: "datetime \<Rightarrow> string" where
  \<comment> \<open>\<open>"%Y-%m-%dT%H:%M:%S"\<close>\<close>
  "strftime_iso ts =
     strftime_Y ts @ ''-'' @ zfill 2 (str_nat (month ts)) @ ''-''
     @ zfill 2 (str_nat (day ts)) @ ''T'' @ strftime_HMS ts"

text \<open>\<open>packet.encode("ascii")\<close>.\<close>

definition is_ascii :: "string \<Rightarrow> bool" where
  "is_ascii s = list_all (\<lambda>c. (of_char c :: nat) < 128) s"

definition encode_ascii :: "string \<Rightarrow> py_error + string" where
  "encode_ascii s = (if is_ascii s then Inr s else Inl UnicodeEncodeError)"

text \<open>\<open>d[key]\<close> raises KeyError on an absent key; \<open>xs[i]\<close> raises IndexError.\<close>

definition get_item :: "'a option \<Rightarrow> py_error + 'a" where
  "get_item v = (case v of None \<Rightarrow> Inl KeyError | Some x \<Rightarrow> Inr x)"


text \<open>\<open>.strftime\<close> on the timestamp: a str has no such attribute.\<close>

definition as_datetime :: "ts_value \<Rightarrow> py_error + datetime" where
  "as_datetime v = (case v of Dt t \<Rightarrow> Inr t | IsoStr s \<Rightarrow> Inl AttributeError)"

section \<open>The device state store\<close>

text \<open>
  Modelled from the spec: the Device State Store (\<open>app.services.redis_service\<close>), a hash
  of text fields for each device identifier. \<open>hget\<close> gives None for a field or a device
  that was never set. The field \<open>last_location_data\<close> holds the JSON text of a record;
  it is kept here as the record that \<open>json.loads\<close> gives back, whose timestamp is a string.
\<close>

record device_state =
  last_location_data :: "location_data option"
  last_output_status :: "string option"

type_synonym store = "string \<Rightarrow> device_state"

definition empty_store :: store where
  "empty_store = (\<lambda>dev. \<lparr>last_location_data = None, last_output_status = None\<rparr>)"

text \<open>A string is true when it is not empty; None is false.\<close>

definition truthy :: "string option \<Rightarrow> bool" where
  "truthy v = (case v of None \<Rightarrow> False | Some s \<Rightarrow> s \<noteq> [])"

section \<open>The Suntech encoders (utils.py)\<close>

text \<open>Line 31, \<open>''.join(filter(str.isdigit, dev_id))\<close>, and the slice \<open>[-10:]\<close>.\<close>

definition dev_id_normalized :: "string \<Rightarrow> string" where
  "dev_id_normalized dev_id = filter isdigit dev_id"

definition last10 :: "string \<Rightarrow> string" where
  "last10 s = drop (length s - 10) s"

definition signed_6f :: "pyfloat \<Rightarrow> string" where
  \<comment> \<open>\<open>f"+{x:.6f}" if x >= 0 else f"{x:.6f}"\<close>\<close>
  "signed_6f x = (if float_ge0 x then ''+'' @ fmt_f 6 x else fmt_f 6 x)"

definition output_status_field :: "store \<Rightarrow> string \<Rightarrow> string" where
  "output_status_field st dev_id =
     ''0000000'' @ (if truthy (last_output_status (st dev_id))
                    then the (last_output_status (st dev_id)) else ''0'')"

definition get_status_bits :: "location_data \<Rightarrow> nat" where
  \<comment> \<open>\<open>location_data.get('status_bits', 0)\<close>\<close>
  "get_status_bits ld = (case status_bits ld of None \<Rightarrow> 0 | Some b \<Rightarrow> b)"

definition base_fields :: "store \<Rightarrow> string \<Rightarrow> string \<Rightarrow> location_data \<Rightarrow> bool \<Rightarrow> py_error + string list" where
  "base_fields st hdr dev_id ld is_rt =
     bind_r (get_item (timestamp ld)) (\<lambda>tsv.
     bind_r (as_datetime tsv) (\<lambda>ts.
     bind_r (get_item (latitude ld)) (\<lambda>lat.
     bind_r (get_item (longitude ld)) (\<lambda>lon.
     bind_r (get_item (speed_kmh ld)) (\<lambda>speed.
     bind_r (get_item (direction ld)) (\<lambda>dir.
       Inr [hdr,
            last10 (dev_id_normalized dev_id),
            ''FFF83F'',
            ''218'',
            ''1.0.12'',
            (if is_rt then ''1'' else ''0''),
            strftime_Ymd ts,
            strftime_HMS ts,
            signed_6f lat,
            signed_6f lon,
            fmt_int_2f speed,
            fmt_int_2f dir,
            str_nat (case satellites ld of None \<Rightarrow> 15 | Some n \<Rightarrow> n),
            (if get_status_bits ld AND 2 \<noteq> 0 then ''1'' else ''0''),
            ''0000000'' @ str_nat (get_status_bits ld AND 1),
            output_status_field st dev_id]))))))"

definition telemetry_fields :: "location_data \<Rightarrow> string list" where
  "telemetry_fields ld =
     [''00028003'', ''12.43'', ''0.0'',
      str_nat (case gps_odometer ld of None \<Rightarrow> 0 | Some n \<Rightarrow> n), ''1'']"

definition str_opt :: "nat option \<Rightarrow> string" where
  \<comment> \<open>\<open>str(alert_id)\<close>\<close>
  "str_opt v = (case v of None \<Rightarrow> ''None'' | Some n \<Rightarrow> str_nat n)"

definition build_suntech_packet ::
  "store \<Rightarrow> string \<Rightarrow> string \<Rightarrow> location_data \<Rightarrow> int \<Rightarrow> bool \<Rightarrow> nat option \<Rightarrow> nat option
     \<Rightarrow> py_error + string" where
  "build_suntech_packet st hdr dev_id ld serial is_rt alert_id geo_fence_id =
     bind_r (base_fields st hdr dev_id ld is_rt) (\<lambda>fields.
       if hdr = ''STT'' then
         let mode = (if truthy (last_output_status (st dev_id)) then ''0'' else ''1'');
             stt_rpt_type = ''1'';
             suntech_serial = serial mod 10000;
             msg_num = zfill 4 (str_nat (nat suntech_serial));
             reserved = []
         in Inr (join '';'' (fields @ [mode, stt_rpt_type, msg_num, reserved]
                                  @ telemetry_fields ld))
       else if hdr = ''ALT'' then
         let alert_mod = (if (alert_id = Some 5 \<or> alert_id = Some 6) \<and> geo_fence_id \<noteq> None
                          then str_opt geo_fence_id else [])
         in Inr (join '';'' (fields @ [str_opt alert_id, alert_mod, [], []]
                                  @ telemetry_fields ld))
       else Inr (join '';'' fields))"



section \<open>The packet handlers (mapper.py)\<close>

definition VL01_TO_SUNTECH_ALERT_MAP :: "nat \<Rightarrow> nat option" where
  "VL01_TO_SUNTECH_ALERT_MAP =
     map_of [(0x01, 42), (0x02, 41), (0x03, 15), (0x04, 6), (0x05, 5), (0x06, 1),
             (0x19, 14), (0xF0, 46), (0xF1, 47), (0x13, 147), (0x14, 73),
             (0xFE, 33), (0xFF, 34)]"

text \<open>
  What one call of a handler does: how it ends, the store it leaves, the packets it hands
  to \<open>send_to_main_server\<close> (device, serial, bytes) and what it logs, both in order.
\<close>

datatype outcome = Returned | Raised py_error

record effects =
  outcome :: outcome
  store_after :: store
  sent :: "(string \<times> int \<times> string) list"
  logs :: "log_event list"

definition returned :: "store \<Rightarrow> (string \<times> int \<times> string) list \<Rightarrow> log_event list \<Rightarrow> effects" where
  "returned st ps ls = \<lparr>outcome = Returned, store_after = st, sent = ps, logs = ls\<rparr>"

definition raised :: "py_error \<Rightarrow> store \<Rightarrow> (string \<times> int \<times> string) list \<Rightarrow> log_event list \<Rightarrow> effects" where
  "raised e st ps ls = \<lparr>outcome = Raised e, store_after = st, sent = ps, logs = ls\<rparr>"

text \<open>
  Lines 116 to 118, 160 to 163 and 176 to 178: \<open>if suntech_packet:\<close>, the log line, the
  encoding and the send. \<open>ls\<close> is what the handler logged before.
\<close>

definition send_packet :: "store \<Rightarrow> string \<Rightarrow> int \<Rightarrow> log_event list \<Rightarrow> string \<Rightarrow> effects" where
  "send_packet st dev_id_str serial ls suntech_packet =
     (if suntech_packet \<noteq> [] then
        (case encode_ascii suntech_packet of
           Inl e \<Rightarrow> raised e st [] (ls @ [PacketTranslated suntech_packet])
         | Inr bs \<Rightarrow> returned st [(dev_id_str, serial, bs)]
                      (ls @ [PacketTranslated suntech_packet]))
      else returned st [] ls)"

definition handle_location_packet :: "store \<Rightarrow> string \<Rightarrow> int \<Rightarrow> bytes \<Rightarrow> effects" where
  "handle_location_packet st dev_id_str serial body =
     (case decode_location_packet body of
        Inl e \<Rightarrow> raised e st [] []
      | Inr None \<Rightarrow> returned st [] (decode_log body)
      | Inr (Some ld) \<Rightarrow>
          if ld = empty_dict then returned st [] []
          else
            (case bind_r (get_item (timestamp ld)) as_datetime of
               Inl e \<Rightarrow> raised e st [] []
             | Inr ts \<Rightarrow>
                 let cached = ld\<lparr>timestamp := Some (IsoStr (strftime_iso ts))\<rparr>;
                     st1 = st(dev_id_str := (st dev_id_str)\<lparr>last_location_data := Some cached\<rparr>)
                 in
                 (case build_suntech_packet st1 ''STT'' dev_id_str ld serial
                         (case is_realtime ld of None \<Rightarrow> True | Some b \<Rightarrow> b) None None of
                    Inl e \<Rightarrow> raised e st1 [] []
                  | Inr suntech_packet \<Rightarrow> send_packet st1 dev_id_str serial [] suntech_packet)))"

subsection \<open>The alarm handler\<close>

text \<open>
  Instants are compared as counts of microseconds from the start of year 1, as Python's
  proleptic Gregorian ordinal counts days. \<open>now\<close> is the value of
  \<open>datetime.now(timezone.utc)\<close>.
\<close>

definition days_before_year :: "nat \<Rightarrow> nat" where
  "days_before_year y = (let p = y - 1 in p * 365 + p div 4 - p div 100 + p div 400)"

definition days_before_month :: "nat \<Rightarrow> nat \<Rightarrow> nat" where
  \<comment> \<open>for a month in \<open>1..12\<close>, the table of the datetime module\<close>
  "days_before_month y m =
     [0, 0, 31, 59, 90, 120, 151, 181, 212, 243, 273, 304, 334] ! m
     + (if 2 < m \<and> is_leap y then 1 else 0)"

definition to_microseconds :: "datetime \<Rightarrow> int" where
  "to_microseconds t =
     (let days = days_before_year (year t) + days_before_month (year t) (month t) + day t
      in int ((((days * 24 + hour t) * 60 + minute t) * 60 + second t) * 1000000
              + microsecond t))"

definition is_after_limit :: "ts_value \<Rightarrow> datetime \<Rightarrow> py_error + bool" where
  \<comment> \<open>\<open>alarm_datetime > limit\<close>, with \<open>limit = now - timedelta(minutes=2)\<close>\<close>
  "is_after_limit v now =
     (case v of
        Dt t \<Rightarrow> Inr (to_microseconds now - 120000000 < to_microseconds t)
      | IsoStr s \<Rightarrow> Inl TypeError)"

definition truthy_ts :: "ts_value \<Rightarrow> bool" where
  "truthy_ts v = (case v of Dt t \<Rightarrow> True | IsoStr s \<Rightarrow> s \<noteq> [])"

text \<open>\<open>{**last_location_data, **alarm_location_data}\<close>: the second dict wins.\<close>

definition override :: "'a option \<Rightarrow> 'a option \<Rightarrow> 'a option" where
  "override old new = (case new of None \<Rightarrow> old | Some v \<Rightarrow> Some v)"

definition dict_merge :: "location_data \<Rightarrow> location_data \<Rightarrow> location_data" where
  "dict_merge a b =
     \<lparr>timestamp = override (timestamp a) (timestamp b),
      satellites = override (satellites a) (satellites b),
      speed_kmh = override (speed_kmh a) (speed_kmh b),
      latitude = override (latitude a) (latitude b),
      longitude = override (longitude a) (longitude b),
      direction = override (direction a) (direction b),
      status_bits = override (status_bits a) (status_bits b),
      is_realtime = override (is_realtime a) (is_realtime b),
      gps_odometer = override (gps_odometer a) (gps_odometer b)\<rparr>"

text \<open>
  Lines 138 to 165: the cached location, the merge, the alarm code and the packet.
  \<open>json.loads\<close> of the None that \<open>hget\<close> gives for a device without a cached location
  raises TypeError. \<open>ls\<close> is what the handler logged before.
\<close>

definition alarm_send ::
  "store \<Rightarrow> string \<Rightarrow> int \<Rightarrow> bytes \<Rightarrow> log_event list \<Rightarrow> location_data \<Rightarrow> effects" where
  "alarm_send st dev_id_str serial body ls alarm_location_data =
     (case last_location_data (st dev_id_str) of
        None \<Rightarrow> raised TypeError st [] ls
      | Some cached \<Rightarrow>
          let definitive_location_data = dict_merge cached alarm_location_data in
          if definitive_location_data = empty_dict then returned st [] ls
          else
     (case index body 17 of
        Inl e \<Rightarrow> raised e st [] ls
      | Inr alarm_code \<Rightarrow>
     (case VL01_TO_SUNTECH_ALERT_MAP alarm_code of
        None \<Rightarrow> returned st [] (ls @ [AlarmUnmapped dev_id_str alarm_code])
      | Some suntech_alert_id \<Rightarrow>
          if suntech_alert_id = 0
          then returned st [] (ls @ [AlarmUnmapped dev_id_str alarm_code])
          else
            let ls2 = ls @ [AlarmTranslated alarm_code suntech_alert_id dev_id_str] in
            (case build_suntech_packet st ''ALT'' dev_id_str definitive_location_data serial
                    True (Some suntech_alert_id) None of
               Inl e \<Rightarrow> raised e st [] ls2
             | Inr suntech_packet \<Rightarrow>
                 send_packet st dev_id_str serial ls2 suntech_packet))))"

text \<open>
  Lines 128 to 136, what the handler does with the value that the decoder returned, None
  or a dict: \<open>.get\<close> on None raises AttributeError; a frame not after the limit is logged
  and goes on to \<open>alarm_send\<close> like any other.
\<close>

definition alarm_tail ::
  "datetime \<Rightarrow> store \<Rightarrow> string \<Rightarrow> int \<Rightarrow> bytes \<Rightarrow> log_event list \<Rightarrow> location_data option
     \<Rightarrow> effects" where
  "alarm_tail now st dev_id_str serial body ls alarm_location_data =
     (case alarm_location_data of
        None \<Rightarrow> raised AttributeError st [] ls
      | Some ald \<Rightarrow>
     (case timestamp ald of
        None \<Rightarrow> returned st [] (ls @ [AlarmNoTimestamp dev_id_str])
      | Some alarm_datetime \<Rightarrow>
          if \<not> truthy_ts alarm_datetime
          then returned st [] (ls @ [AlarmNoTimestamp dev_id_str])
          else
     (case is_after_limit alarm_datetime now of
        Inl e \<Rightarrow> raised e st [] ls
      | Inr after \<Rightarrow>
          alarm_send st dev_id_str serial body
            (if \<not> after then ls @ [AlarmFromMemory dev_id_str] else ls) ald)))"

text \<open>Lines 122 to 126, then the rest.\<close>

definition handle_alarm_packet :: "datetime \<Rightarrow> store \<Rightarrow> string \<Rightarrow> int \<Rightarrow> bytes \<Rightarrow> effects" where
  "handle_alarm_packet now st dev_id_str serial body =
     (if length body < 21 then returned st [] [ShortAlarm body]
      else
        (case decode_location_packet (slice body 0 16) of
           Inl e \<Rightarrow> raised e st [] []
         | Inr alarm_location_data \<Rightarrow>
             alarm_tail now st dev_id_str serial body (decode_log (slice body 0 16))
               alarm_location_data))"

subsection \<open>The heartbeat handler\<close>


section \<open>The words of the specification\<close>

text \<open>The big-endian 16-bit and 32-bit values at an offset of the body.\<close>

definition be16 :: "bytes \<Rightarrow> nat \<Rightarrow> nat" where
  "be16 body i = unat (body ! i) * 256 + unat (body ! (i + 1))"

definition be32 :: "bytes \<Rightarrow> nat \<Rightarrow> nat" where
  "be32 body i =
     ((unat (body ! i) * 256 + unat (body ! (i + 1))) * 256 + unat (body ! (i + 2))) * 256
     + unat (body ! (i + 3))"

text \<open>
  The fixed layout is well formed: 18 bytes at least, and the six bytes of the date are a
  date of the calendar.
\<close>

definition fixed_ok :: "bytes \<Rightarrow> bool" where
  "fixed_ok body =
     (18 \<le> length body \<and>
      valid_datetime (2000 + unat (body ! 0)) (unat (body ! 1)) (unat (body ! 2))
        (unat (body ! 3)) (unat (body ! 4)) (unat (body ! 5)))"

text \<open>
  The record of the fixed layout as the specification lays it out: fields 1 to 5 of the
  decoder, the hemisphere bits 10 and 11 of the course and status word giving the signs.
\<close>

definition fixed_record :: "bytes \<Rightarrow> location_data" where
  "fixed_record body =
     \<lparr>timestamp = Some (Dt \<lparr>year = 2000 + unat (body ! 0), month = unat (body ! 1),
         day = unat (body ! 2), hour = unat (body ! 3), minute = unat (body ! 4),
         second = unat (body ! 5), microsecond = 0\<rparr>),
      satellites = Some (unat (body ! 6) AND 15),
      speed_kmh = Some (unat (body ! 15)),
      latitude = Some \<lparr>negative = \<not> bit (be16 body 16) 10,
                        magnitude = of_nat (be32 body 7) / 1800000\<rparr>,
      longitude = Some \<lparr>negative = bit (be16 body 16) 11,
                         magnitude = of_nat (be32 body 11) / 1800000\<rparr>,
      direction = Some (be16 body 16 AND 1023),
      status_bits = None, is_realtime = None, gps_odometer = None\<rparr>"




section \<open>Sample frames\<close>

text \<open>
  The fixed layout of the end-to-end scenario: 2024-06-01 12:00:00, 8 satellites, raw
  latitude 162000000, raw longitude 81000000, speed 50, course and status 0x1C20.
\<close>

definition sample_fixed :: bytes where
  "sample_fixed =
     [24, 6, 1, 12, 0, 0, 0xC8, 0x09, 0xA7, 0xEC, 0x80, 0x04, 0xD3, 0xF6, 0x40, 50, 0x1C, 0x20]"

text \<open>
  A full location frame: MCC 0x02D4 (bit 15 clear), one byte of MNC, LAC, two cell
  entries, ACC on at 33, one byte, realtime at 35, odometer 258 at 36.
\<close>

definition sample_location :: bytes where
  "sample_location =
     sample_fixed @ [0x02, 0xD4, 0x0B, 0, 0, 0x11, 0x22, 0, 0, 0, 1, 0, 0, 0, 2, 1, 0, 0,
                     0, 0, 1, 2]"

text \<open>The same frame with bit 15 of the MCC set and two bytes of MNC.\<close>

definition sample_location_mnc2 :: bytes where
  "sample_location_mnc2 =
     sample_fixed @ [0x82, 0xD4, 0x0B, 0x0C, 0, 0, 0x11, 0x22, 0, 0, 0, 1, 0, 0, 0, 2, 1, 0, 0,
                     0, 0, 1, 2]"

text \<open>The same frame cut after the ACC byte.\<close>

definition sample_cut :: bytes where
  "sample_cut = take 34 sample_location"

text \<open>An alarm frame of 21 bytes, alarm code 0x06 at byte 17.\<close>

definition sample_alarm :: bytes where
  "sample_alarm = take 16 sample_fixed @ [0x00, 0x06, 0x00, 0x00, 0x00]"

definition sample_record :: location_data where
  "sample_record =
     \<lparr>timestamp = Some (Dt \<lparr>year = 2024, month = 6, day = 1, hour = 12, minute = 0,
                             second = 0, microsecond = 0\<rparr>),
      satellites = Some 8, speed_kmh = Some 50,
      latitude = Some \<lparr>negative = False, magnitude = 90\<rparr>,
      longitude = Some \<lparr>negative = True, magnitude = 45\<rparr>,
      direction = Some 32, status_bits = None, is_realtime = None, gps_odometer = None\<rparr>"

definition sample_now :: datetime where
  "sample_now = \<lparr>year = 2024, month = 6, day = 1, hour = 12, minute = 0, second = 30,
     microsecond = 250000\<rparr>"

text \<open>
  The device identifier of the specification's example, a store that holds a cached
  location for it, and a clock ten minutes after the sample frames.
\<close>

definition sample_dev :: string where
  "sample_dev = ''imei:123-456-7890123''"

definition sample_cached :: location_data where
  "sample_cached =
     sample_record\<lparr>timestamp := Some (IsoStr ''2024-06-01T11:59:00''),
       status_bits := Some 3, is_realtime := Some True, gps_odometer := Some 258\<rparr>"

definition sample_store :: store where
  "sample_store =
     empty_store(sample_dev := \<lparr>last_location_data = Some sample_cached,
                                 last_output_status = None\<rparr>)"

definition sample_late :: datetime where
  "sample_late = \<lparr>year = 2024, month = 6, day = 1, hour = 12, minute = 10, second = 0,
     microsecond = 0\<rparr>"


section \<open>Slices and unpacking\<close>

lemma slice_nth: "b \<le> length xs \<Longrightarrow> slice xs a b = map ((!) xs) [a..<b]"
  unfolding slice_def by (rule nth_equalityI) auto

lemma length_slice: "length (slice xs a b) = min (b - a) (length xs - a)"
  by (simp add: slice_def)

lemma upt_2: "[a..<a + 2] = [a, a + 1]"
  by (simp add: upt_rec)

lemma upt_4: "[a..<a + 4] = [a, a + 1, a + 2, a + 3]"
  by (simp add: upt_rec)

lemma upt_0_6: "[0..<6] = [0, 1, 2, 3, 4, 5::nat]"
  by (simp add: upt_rec)

lemma unpack_H_slice:
  "a + 2 \<le> length body \<Longrightarrow> unpack_H (slice body a (a + 2)) = Inr (be16 body a)"
  by (simp add: slice_nth upt_2 unpack_H_def be_nat_def be16_def)

lemma unpack_H_short:
  "length body < a + 2 \<Longrightarrow> unpack_H (slice body a (a + 2)) = Inl StructError"
  by (simp add: unpack_H_def length_slice)

lemma unpack_I_slice:
  "a + 4 \<le> length body \<Longrightarrow> unpack_I (slice body a (a + 4)) = Inr (be32 body a)"
  by (simp add: slice_nth upt_4 unpack_I_def be_nat_def be32_def)

lemma unpack_I_short:
  "length body < a + 4 \<Longrightarrow> unpack_I (slice body a (a + 4)) = Inl StructError"
  by (simp add: unpack_I_def length_slice)

lemma unpack_II_slice:
  "15 \<le> length body \<Longrightarrow> unpack_II (slice body 7 15) = Inr (be32 body 7, be32 body 11)"
  by (simp add: slice_nth unpack_II_def be_nat_def be32_def upt_rec_numeral)

lemma unpack_II_short:
  "length body < 15 \<Longrightarrow> unpack_II (slice body 7 15) = Inl StructError"
  by (simp add: unpack_II_def length_slice)

lemma unpack_BBBBBB_slice:
  "6 \<le> length body \<Longrightarrow> unpack_BBBBBB (slice body 0 6) =
     Inr (unat (body ! 0), unat (body ! 1), unat (body ! 2), unat (body ! 3),
          unat (body ! 4), unat (body ! 5))"
  by (simp add: slice_nth unpack_BBBBBB_def upt_0_6)

lemma unpack_BBBBBB_short:
  "length body < 6 \<Longrightarrow> unpack_BBBBBB (slice body 0 6) = Inl StructError"
proof -
  assume "length body < 6"
  then have "length (slice body 0 6) \<noteq> 6" by (simp add: length_slice)
  then show ?thesis
    by (auto simp: unpack_BBBBBB_def split: list.splits)
qed

lemma index_ok: "i < length body \<Longrightarrow> index body i = Inr (unat (body ! i))"
  by (simp add: index_def)

lemma index_short: "length body \<le> i \<Longrightarrow> index body i = Inl IndexError"
  by (simp add: index_def)

section \<open>The decoder\<close>

lemma drop_bit_and_1: "drop_bit n (a::nat) AND 1 = (if bit a n then 1 else 0)"
  by (simp add: and_one_eq bit_iff_odd_drop_bit mod_2_eq_odd)

lemma decode_fixed_ok:
  assumes "fixed_ok body"
  shows "decode_fixed body = Inr (fixed_record body, if bit (be16 body 16) 12 then 1 else 0)"
proof -
  from assms have len: "18 \<le> length body"
    and v: "valid_datetime (2000 + unat (body ! 0)) (unat (body ! 1)) (unat (body ! 2))
        (unat (body ! 3)) (unat (body ! 4)) (unat (body ! 5))"
    by (simp_all add: fixed_ok_def)
  have h: "unpack_H (slice body 16 18) = Inr (be16 body 16)"
    using unpack_H_slice [of 16 body] len by simp
  show ?thesis
    unfolding decode_fixed_def drop_bit_and_1
    using len v
    by (simp add: bind_r_def unpack_BBBBBB_slice mk_datetime_def index_ok
        unpack_II_slice h fixed_record_def empty_dict_def float_div_def
        float_abs_def float_neg_def Let_def)
qed

lemma decode_fixed_short:
  assumes "length body < 18"
  shows "\<exists>e. decode_fixed body = Inl e"
proof -
  have h: "unpack_H (slice body 16 18) = Inl StructError"
    using unpack_H_short [of body 16] assms by simp
  show ?thesis
    by (auto simp: decode_fixed_def bind_r_def h split: sum.splits prod.splits)
qed

lemma decode_fixed_bad_date:
  assumes "\<not> valid_datetime (2000 + unat (body ! 0)) (unat (body ! 1)) (unat (body ! 2))
        (unat (body ! 3)) (unat (body ! 4)) (unat (body ! 5))"
  shows "\<exists>e. decode_fixed body = Inl e"
proof (cases "6 \<le> length body")
  case True
  then show ?thesis using assms
    by (simp add: decode_fixed_def bind_r_def unpack_BBBBBB_slice mk_datetime_def)
next
  case False
  then show ?thesis
    by (simp add: decode_fixed_def bind_r_def unpack_BBBBBB_short)
qed

lemma decode_fixed_iff: "(\<exists>r. decode_fixed body = Inr r) \<longleftrightarrow> fixed_ok body"
proof
  assume "\<exists>r. decode_fixed body = Inr r"
  then show "fixed_ok body"
    using decode_fixed_short [of body] decode_fixed_bad_date [of body]
    by (fastforce simp: fixed_ok_def)
next
  assume "fixed_ok body"
  then show "\<exists>r. decode_fixed body = Inr r" by (simp add: decode_fixed_ok)
qed


lemma trailing_block_full:
  assumes "acc_at (be16 body 18) + 7 \<le> length body"
  shows "trailing_block body g data =
     (data\<lparr>status_bits := Some ((if g = 1 then 2 else 0)
                                 + (if unat (body ! acc_at (be16 body 18)) = 1 then 1 else 0)),
            is_realtime := Some (unat (body ! (acc_at (be16 body 18) + 2)) = 0),
            gps_odometer := Some (be32 body (acc_at (be16 body 18) + 3))\<rparr>, None)"
proof -
  have a: "33 \<le> acc_at (be16 body 18)" by (simp add: acc_at_def mnc_length_def)
  have h: "unpack_H (slice body 18 20) = Inr (be16 body 18)"
    using unpack_H_slice [of 18 body] assms a by simp
  have i: "unpack_I (slice body (acc_at (be16 body 18) + 3) (7 + acc_at (be16 body 18)))
             = Inr (be32 body (acc_at (be16 body 18) + 3))"
    using unpack_I_slice [of "acc_at (be16 body 18) + 3" body] assms by simp
  show ?thesis
    using assms
    by (simp add: trailing_block_def h i index_ok Let_def)
qed

lemma trailing_block_short:
  assumes "length body < 20"
  shows "trailing_block body g data = (data, Some StructError)"
  using unpack_H_short [of body 18] assms by (simp add: trailing_block_def)

lemma trailing_block_no_acc:
  assumes "20 \<le> length body" "length body \<le> acc_at (be16 body 18)"
  shows "trailing_block body g data = (data, Some IndexError)"
  using unpack_H_slice [of 18 body] assms by (simp add: trailing_block_def index_short)

lemma trailing_block_no_realtime:
  assumes "acc_at (be16 body 18) < length body" "length body \<le> acc_at (be16 body 18) + 2"
  shows "trailing_block body g data =
     (data\<lparr>status_bits := Some ((if g = 1 then 2 else 0)
                                 + (if unat (body ! acc_at (be16 body 18)) = 1 then 1 else 0))\<rparr>,
      Some IndexError)"
proof -
  have a: "33 \<le> acc_at (be16 body 18)" by (simp add: acc_at_def mnc_length_def)
  have h: "unpack_H (slice body 18 20) = Inr (be16 body 18)"
    using unpack_H_slice [of 18 body] assms a by simp
  show ?thesis
    using assms by (simp add: trailing_block_def h index_ok index_short Let_def)
qed

lemma trailing_block_no_odometer:
  assumes "acc_at (be16 body 18) + 2 < length body" "length body < acc_at (be16 body 18) + 7"
  shows "trailing_block body g data =
     (data\<lparr>status_bits := Some ((if g = 1 then 2 else 0)
                                 + (if unat (body ! acc_at (be16 body 18)) = 1 then 1 else 0)),
            is_realtime := Some (unat (body ! (acc_at (be16 body 18) + 2)) = 0)\<rparr>,
      Some StructError)"
proof -
  have a: "33 \<le> acc_at (be16 body 18)" by (simp add: acc_at_def mnc_length_def)
  have h: "unpack_H (slice body 18 20) = Inr (be16 body 18)"
    using unpack_H_slice [of 18 body] assms a by simp
  have i: "unpack_I (slice body (acc_at (be16 body 18) + 3) (7 + acc_at (be16 body 18)))
             = Inl StructError"
    using unpack_I_short [of body "acc_at (be16 body 18) + 3"] assms by simp
  show ?thesis
    using assms by (simp add: trailing_block_def h i index_ok Let_def)
qed

lemma decode_location_packet_ok:
  assumes "fixed_ok body"
  shows "decode_location_packet body =
     Inr (Some (decode_trailing body (if bit (be16 body 16) 12 then 1 else 0) (fixed_record body)))"
  using decode_fixed_ok [OF assms]
  by (simp add: decode_location_packet_def decode_try_def bind_r_def)

lemma decode_location_packet_fail:
  assumes "\<not> fixed_ok body"
  shows "decode_location_packet body = Inr None"
proof -
  from assms decode_fixed_iff [of body] obtain e where "decode_fixed body = Inl e"
    by (cases "decode_fixed body") auto
  then show ?thesis
    by (simp add: decode_location_packet_def decode_try_def bind_r_def)
qed

lemma decode_location_packet_Some:
  assumes "decode_location_packet body = Inr (Some d)"
  shows "fixed_ok body"
  using assms decode_location_packet_fail [of body] by auto

text \<open>
  Claim C10. For every byte sequence \<open>decode_location_packet\<close> returns: its result is a
  record or None, never an exception. A body shorter than the 18 bytes of the fixed layout,
  or one whose first six bytes are not a date of the calendar, gives None; every other body
  gives a record.
\<close>

theorem decode_total:
  "(\<exists>r. decode_location_packet body = Inr r) \<and>
   (length body < 18 \<or>
    \<not> valid_datetime (2000 + unat (body ! 0)) (unat (body ! 1)) (unat (body ! 2))
        (unat (body ! 3)) (unat (body ! 4)) (unat (body ! 5))
    \<longrightarrow> decode_location_packet body = Inr None) \<and>
   (18 \<le> length body \<and>
    valid_datetime (2000 + unat (body ! 0)) (unat (body ! 1)) (unat (body ! 2))
        (unat (body ! 3)) (unat (body ! 4)) (unat (body ! 5))
    \<longrightarrow> (\<exists>d. decode_location_packet body = Inr (Some d)))"
proof (cases "fixed_ok body")
  case True
  then show ?thesis
    using decode_location_packet_ok [of body] by (auto simp: fixed_ok_def)
next
  case False
  then show ?thesis
    using decode_location_packet_fail [of body] by (auto simp: fixed_ok_def)
qed

theorem decode_total_witness:
  "decode_location_packet (take 17 sample_fixed) = Inr None \<and>
   decode_location_packet (sample_fixed[1 := 13]) = Inr None \<and>
   decode_location_packet [] = Inr None \<and>
   (\<exists>d. decode_location_packet sample_fixed = Inr (Some d))"
proof -
  have s: "length (take 17 sample_fixed) < 18" by (simp add: sample_fixed_def)
  have b: "\<not> valid_datetime (2000 + unat ((sample_fixed[1 := 13]) ! 0))
         (unat ((sample_fixed[1 := 13]) ! 1)) (unat ((sample_fixed[1 := 13]) ! 2))
         (unat ((sample_fixed[1 := 13]) ! 3)) (unat ((sample_fixed[1 := 13]) ! 4))
         (unat ((sample_fixed[1 := 13]) ! 5))"
    by (simp add: sample_fixed_def valid_datetime_def)
  have e: "length ([]::bytes) < 18" by simp
  have g: "18 \<le> length sample_fixed \<and>
    valid_datetime (2000 + unat (sample_fixed ! 0)) (unat (sample_fixed ! 1))
      (unat (sample_fixed ! 2)) (unat (sample_fixed ! 3)) (unat (sample_fixed ! 4))
      (unat (sample_fixed ! 5))"
    by (simp add: sample_fixed_def valid_datetime_def days_in_month_def)
  show ?thesis
    using decode_total [of "take 17 sample_fixed"] decode_total [of "sample_fixed[1 := 13]"]
      decode_total [of "[]"] decode_total [of sample_fixed] s b e g
    by blast
qed

lemma sample_fixed_ok: "fixed_ok sample_fixed"
  by (simp add: fixed_ok_def sample_fixed_def valid_datetime_def days_in_month_def)

lemma sample_location_ok: "fixed_ok sample_location"
  by (simp add: fixed_ok_def sample_location_def sample_fixed_def valid_datetime_def days_in_month_def)

lemma trailing_block_keeps:
  "timestamp (fst (trailing_block body g data)) = timestamp data"
  "satellites (fst (trailing_block body g data)) = satellites data"
  "speed_kmh (fst (trailing_block body g data)) = speed_kmh data"
  "latitude (fst (trailing_block body g data)) = latitude data"
  "longitude (fst (trailing_block body g data)) = longitude data"
  "direction (fst (trailing_block body g data)) = direction data"
  by (simp_all add: trailing_block_def Let_def split: sum.splits)

lemma acc_at_eq: "acc_at mcc = (if bit mcc 15 then 34 else 33)"
  unfolding acc_at_def mnc_length_def drop_bit_and_1 by simp

text \<open>
  Claim C5. In a full location frame the ACC byte is read at \<open>20 + mnc_length + 12\<close>,
  where \<open>mnc_length\<close> is 2 when bit 15 of the MCC at bytes 18 and 19 is set and 1
  otherwise: at 34 or at 33. The realtime flag is read two bytes and the odometer three bytes
  after it, so that setting bit 15 moves the three of them by one byte.
\<close>

theorem acc_offset_follows_mnc_length:
  assumes "fixed_ok body" and "acc_at (be16 body 18) + 7 \<le> length body"
  shows "mnc_length (be16 body 18) = (if bit (be16 body 18) 15 then 2 else 1) \<and>
         acc_at (be16 body 18) = 20 + mnc_length (be16 body 18) + 12 \<and>
         acc_at (be16 body 18) = (if bit (be16 body 18) 15 then 34 else 33) \<and>
         decode_location_packet body =
           Inr (Some ((fixed_record body)
             \<lparr>status_bits := Some ((if bit (be16 body 16) 12 then 2 else 0)
                  + (if unat (body ! acc_at (be16 body 18)) = 1 then 1 else 0)),
              is_realtime := Some (unat (body ! (acc_at (be16 body 18) + 2)) = 0),
              gps_odometer := Some (be32 body (acc_at (be16 body 18) + 3))\<rparr>))"
proof -
  have "mnc_length (be16 body 18) = (if bit (be16 body 18) 15 then 2 else 1)"
    unfolding mnc_length_def drop_bit_and_1 by simp
  moreover have "acc_at (be16 body 18) = 20 + mnc_length (be16 body 18) + 12"
    by (simp add: acc_at_def)
  moreover have "acc_at (be16 body 18) = (if bit (be16 body 18) 15 then 34 else 33)"
    by (rule acc_at_eq)
  moreover have "decode_location_packet body =
           Inr (Some ((fixed_record body)
             \<lparr>status_bits := Some ((if bit (be16 body 16) 12 then 2 else 0)
                  + (if unat (body ! acc_at (be16 body 18)) = 1 then 1 else 0)),
              is_realtime := Some (unat (body ! (acc_at (be16 body 18) + 2)) = 0),
              gps_odometer := Some (be32 body (acc_at (be16 body 18) + 3))\<rparr>))"
    using decode_location_packet_ok [OF assms(1)] trailing_block_full [OF assms(2)]
    by (simp add: decode_trailing_def)
  ultimately show ?thesis by blast
qed

lemma sample_location_mnc2_ok: "fixed_ok sample_location_mnc2"
  by (simp add: fixed_ok_def sample_location_mnc2_def sample_fixed_def valid_datetime_def days_in_month_def)

lemma sample_mcc: "be16 sample_location 18 = 724" "be16 sample_location_mnc2 18 = 33492"
  by (simp_all add: be16_def sample_location_def sample_location_mnc2_def sample_fixed_def)

lemma fixed_record_samples:
  "fixed_record sample_location = sample_record"
  "fixed_record sample_location_mnc2 = sample_record"
  "fixed_record sample_fixed = sample_record"
  by (simp_all add: fixed_record_def sample_record_def sample_location_def sample_location_mnc2_def
      sample_fixed_def be16_def be32_def bit_Suc_0_iff)

theorem acc_offset_follows_mnc_length_witness:
  "decode_location_packet sample_location =
     Inr (Some (sample_record\<lparr>status_bits := Some 3, is_realtime := Some True,
                               gps_odometer := Some 258\<rparr>)) \<and>
   decode_location_packet sample_location_mnc2 =
     Inr (Some (sample_record\<lparr>status_bits := Some 3, is_realtime := Some True,
                               gps_odometer := Some 258\<rparr>)) \<and>
   acc_at (be16 sample_location 18) = 33 \<and> acc_at (be16 sample_location_mnc2 18) = 34"
proof -
  have a: "acc_at (be16 sample_location 18) = 33" "acc_at (be16 sample_location_mnc2 18) = 34"
    by (simp_all add: sample_mcc acc_at_eq bit_Suc_0_iff)
  have n: "length sample_location = 40" "length sample_location_mnc2 = 41"
    by (simp_all add: sample_location_def sample_location_mnc2_def sample_fixed_def)
  have l1: "acc_at (be16 sample_location 18) + 7 \<le> length sample_location"
    by (simp add: a n)
  have l2: "acc_at (be16 sample_location_mnc2 18) + 7 \<le> length sample_location_mnc2"
    by (simp add: a n)
  have b1: "bit (be16 sample_location 16) 12 = True" "unat (sample_location ! 33) = 1"
       "unat (sample_location ! (33 + 2)) = 0" "be32 sample_location (33 + 3) = 258"
    by (simp_all add: sample_location_def sample_fixed_def be16_def be32_def bit_Suc_0_iff)
  have b2: "bit (be16 sample_location_mnc2 16) 12 = True" "unat (sample_location_mnc2 ! 34) = 1"
       "unat (sample_location_mnc2 ! (34 + 2)) = 0" "be32 sample_location_mnc2 (34 + 3) = 258"
    by (simp_all add: sample_location_mnc2_def sample_fixed_def be16_def be32_def bit_Suc_0_iff)
  have t1: "decode_location_packet sample_location =
     Inr (Some (sample_record\<lparr>status_bits := Some (2 + 1), is_realtime := Some (0 = (0::nat)),
                               gps_odometer := Some 258\<rparr>))"
    using acc_offset_follows_mnc_length [OF sample_location_ok l1]
    unfolding a fixed_record_samples b1 by simp
  have t2: "decode_location_packet sample_location_mnc2 =
     Inr (Some (sample_record\<lparr>status_bits := Some (2 + 1), is_realtime := Some (0 = (0::nat)),
                               gps_odometer := Some 258\<rparr>))"
    using acc_offset_follows_mnc_length [OF sample_location_mnc2_ok l2]
    unfolding a fixed_record_samples b2 by simp
  show ?thesis
    using t1 t2 a by simp
qed

text \<open>
  Claim C6. Whenever the decoder returns a record, its latitude is \<open>+|lat|\<close> when bit 10
  of the course and status word at bytes 16 and 17 is set and \<open>-|lat|\<close> when it is clear,
  and its longitude is \<open>-|lon|\<close> when bit 11 is set and \<open>+|lon|\<close> when it is clear,
  where \<open>lat\<close> and \<open>lon\<close> are the raw values at bytes 7 and 11 over 1800000. With
  bit 10 set and bit 11 clear both are \<open>>= 0\<close>.
\<close>

theorem hemisphere_bits_give_signs:
  assumes "decode_location_packet body = Inr (Some d)"
  shows "map_option float_val (latitude d) =
           Some (if bit (be16 body 16) 10 then \<bar>of_nat (be32 body 7) / 1800000\<bar>
                 else - \<bar>of_nat (be32 body 7) / 1800000\<bar>) \<and>
         map_option float_val (longitude d) =
           Some (if bit (be16 body 16) 11 then - \<bar>of_nat (be32 body 11) / 1800000\<bar>
                 else \<bar>of_nat (be32 body 11) / 1800000\<bar>) \<and>
         map_option negative (latitude d) = Some (\<not> bit (be16 body 16) 10) \<and>
         map_option negative (longitude d) = Some (bit (be16 body 16) 11) \<and>
         (bit (be16 body 16) 10 \<and> \<not> bit (be16 body 16) 11 \<longrightarrow>
            map_option float_ge0 (latitude d) = Some True \<and>
            map_option float_ge0 (longitude d) = Some True)"
proof -
  have ok: "fixed_ok body" using assms by (rule decode_location_packet_Some)
  let ?g = "if bit (be16 body 16) 12 then 1 else 0"
  have d: "d = decode_trailing body ?g (fixed_record body)"
    using decode_location_packet_ok [OF ok] assms by simp
  have la: "latitude d = latitude (fixed_record body)"
    and lo: "longitude d = longitude (fixed_record body)"
    by (simp_all add: d decode_trailing_def trailing_block_keeps)
  show ?thesis
    by (simp add: la lo fixed_record_def float_val_def float_ge0_def)
qed


lemma sample_fixed_decodes: "decode_location_packet sample_fixed = Inr (Some sample_record)"
proof -
  have len: "length sample_fixed < 20" by (simp add: sample_fixed_def)
  show ?thesis
    using decode_location_packet_ok [OF sample_fixed_ok] trailing_block_short [OF len]
    by (simp add: decode_trailing_def fixed_record_samples)
qed

lemma sample_east_decodes:
  "decode_location_packet (sample_fixed[16 := 0x14]) =
     Inr (Some (sample_record\<lparr>longitude := Some \<lparr>negative = False, magnitude = 45\<rparr>\<rparr>))"
proof -
  have len: "length (sample_fixed[16 := 0x14]) < 20" by (simp add: sample_fixed_def)
  have ok: "fixed_ok (sample_fixed[16 := 0x14])"
    by (simp add: fixed_ok_def sample_fixed_def valid_datetime_def days_in_month_def)
  have r: "fixed_record (sample_fixed[16 := 0x14]) =
      sample_record\<lparr>longitude := Some \<lparr>negative = False, magnitude = 45\<rparr>\<rparr>"
    by (simp add: fixed_record_def sample_record_def sample_fixed_def be16_def be32_def
        bit_Suc_0_iff)
  show ?thesis
    using decode_location_packet_ok [OF ok] trailing_block_short [OF len]
    by (simp add: decode_trailing_def r)
qed

theorem hemisphere_bits_give_signs_witness:
  "decode_location_packet sample_fixed = Inr (Some sample_record) \<and>
   map_option float_val (latitude sample_record) = Some 90 \<and>
   map_option float_val (longitude sample_record) = Some (- 45) \<and>
   bit (be16 (sample_fixed[16 := 0x14]) 16) 10 \<and> \<not> bit (be16 (sample_fixed[16 := 0x14]) 16) 11 \<and>
   map_option float_ge0
     (latitude (sample_record\<lparr>longitude := Some \<lparr>negative = False, magnitude = 45\<rparr>\<rparr>))
     = Some True \<and>
   map_option float_ge0
     (longitude (sample_record\<lparr>longitude := Some \<lparr>negative = False, magnitude = 45\<rparr>\<rparr>))
     = Some True"
proof -
  have b: "bit (be16 sample_fixed 16) 10 = True" "bit (be16 sample_fixed 16) 11 = True"
     "be32 sample_fixed 7 = 162000000" "be32 sample_fixed 11 = 81000000"
    by (simp_all add: sample_fixed_def be16_def be32_def bit_Suc_0_iff)
  have c: "bit (be16 (sample_fixed[16 := 0x14]) 16) 10 = True"
     "bit (be16 (sample_fixed[16 := 0x14]) 16) 11 = False"
    by (simp_all add: sample_fixed_def be16_def bit_Suc_0_iff)
  have w: "map_option float_val (latitude sample_record) = Some 90 \<and>
           map_option float_val (longitude sample_record) = Some (- 45)"
    using hemisphere_bits_give_signs [OF sample_fixed_decodes] unfolding b by simp
  have e: "map_option float_ge0
     (latitude (sample_record\<lparr>longitude := Some \<lparr>negative = False, magnitude = 45\<rparr>\<rparr>))
     = Some True \<and>
   map_option float_ge0
     (longitude (sample_record\<lparr>longitude := Some \<lparr>negative = False, magnitude = 45\<rparr>\<rparr>))
     = Some True"
    using hemisphere_bits_give_signs [OF sample_east_decodes] unfolding c by blast
  show ?thesis
    using w e sample_fixed_decodes c by simp
qed

text \<open>
  Claim C7, as amended. When the fixed layout decodes and the block of the trailing fields
  raises, the decoder still returns a record, with the timestamp, satellites, latitude,
  longitude, speed and direction of the fixed layout. The odometer is absent. The trailing
  fields that were read before the failing step stay on the record: \<open>status_bits\<close> is
  present exactly when the ACC byte is in the body, and \<open>is_realtime\<close> exactly when the
  realtime byte is.
\<close>

theorem trailing_failure_keeps_fixed_fields:
  assumes "decode_fixed body = Inr (data, g)"
    and "snd (trailing_block body g data) = Some e"
  shows "\<exists>d. decode_location_packet body = Inr (Some d) \<and>
           timestamp d = timestamp (fixed_record body) \<and>
           satellites d = satellites (fixed_record body) \<and>
           latitude d = latitude (fixed_record body) \<and>
           longitude d = longitude (fixed_record body) \<and>
           speed_kmh d = speed_kmh (fixed_record body) \<and>
           direction d = direction (fixed_record body) \<and>
           timestamp d \<noteq> None \<and> satellites d \<noteq> None \<and> latitude d \<noteq> None \<and>
           longitude d \<noteq> None \<and> speed_kmh d \<noteq> None \<and> direction d \<noteq> None \<and>
           gps_odometer d = None \<and>
           (status_bits d \<noteq> None \<longleftrightarrow>
              20 \<le> length body \<and> acc_at (be16 body 18) < length body) \<and>
           (is_realtime d \<noteq> None \<longleftrightarrow>
              20 \<le> length body \<and> acc_at (be16 body 18) + 2 < length body) \<and>
           (20 \<le> length body \<longrightarrow> length body < acc_at (be16 body 18) + 7)"
proof -
  have ok: "fixed_ok body" using assms(1) decode_fixed_iff [of body] by auto
  let ?g = "if bit (be16 body 16) 12 then 1 else (0::nat)"
  have dg: "data = fixed_record body" "g = ?g"
    using decode_fixed_ok [OF ok] assms(1) by simp_all
  let ?d = "fst (trailing_block body g data)"
  have dec: "decode_location_packet body = Inr (Some ?d)"
    using decode_location_packet_ok [OF ok] by (simp add: decode_trailing_def dg)
  have keep: "timestamp ?d = timestamp (fixed_record body)"
    "satellites ?d = satellites (fixed_record body)"
    "latitude ?d = latitude (fixed_record body)"
    "longitude ?d = longitude (fixed_record body)"
    "speed_kmh ?d = speed_kmh (fixed_record body)"
    "direction ?d = direction (fixed_record body)"
    by (simp_all add: trailing_block_keeps dg(1))
  have present: "timestamp ?d \<noteq> None" "satellites ?d \<noteq> None" "latitude ?d \<noteq> None"
    "longitude ?d \<noteq> None" "speed_kmh ?d \<noteq> None" "direction ?d \<noteq> None"
    by (simp_all add: keep fixed_record_def)
  have none: "status_bits data = None" "is_realtime data = None" "gps_odometer data = None"
    by (simp_all add: dg(1) fixed_record_def)
  have a: "33 \<le> acc_at (be16 body 18)" by (simp add: acc_at_eq)
  have short: "length body < acc_at (be16 body 18) + 7"
  proof (rule ccontr)
    assume "\<not> length body < acc_at (be16 body 18) + 7"
    then have "acc_at (be16 body 18) + 7 \<le> length body" by simp
    from trailing_block_full [OF this, of g data] assms(2) show False by simp
  qed
  consider (s) "length body < 20"
    | (n) "20 \<le> length body" "length body \<le> acc_at (be16 body 18)"
    | (r) "acc_at (be16 body 18) < length body" "length body \<le> acc_at (be16 body 18) + 2"
    | (m) "acc_at (be16 body 18) + 2 < length body"
    using a by linarith
  then have rest: "gps_odometer ?d = None \<and>
           (status_bits ?d \<noteq> None \<longleftrightarrow>
              20 \<le> length body \<and> acc_at (be16 body 18) < length body) \<and>
           (is_realtime ?d \<noteq> None \<longleftrightarrow>
              20 \<le> length body \<and> acc_at (be16 body 18) + 2 < length body)"
  proof cases
    case s
    then show ?thesis using trailing_block_short [OF s, of g data] none by simp
  next
    case n
    then show ?thesis using trailing_block_no_acc [OF n, of g data] none by simp
  next
    case r
    then show ?thesis using trailing_block_no_realtime [OF r, of g data] none a by simp
  next
    case m
    then show ?thesis using trailing_block_no_odometer [OF m short, of g data] none a by simp
  qed
  show ?thesis
    using dec keep present rest short by blast
qed

lemma sample_cut_facts:
  "length sample_cut = 34" "fixed_ok sample_cut" "be16 sample_cut 18 = 724"
  "fixed_record sample_cut = sample_record" "bit (be16 sample_cut 16) 12"
  "unat (sample_cut ! 33) = 1"
  by (simp_all add: sample_cut_def sample_location_def sample_fixed_def fixed_ok_def
      valid_datetime_def days_in_month_def be16_def be32_def fixed_record_def sample_record_def
      bit_Suc_0_iff)

lemma sample_cut_fixed: "decode_fixed sample_cut = Inr (sample_record, 1)"
  using decode_fixed_ok [OF sample_cut_facts(2)] by (simp add: sample_cut_facts)

lemma sample_cut_trailing:
  "trailing_block sample_cut 1 sample_record =
     (sample_record\<lparr>status_bits := Some 3\<rparr>, Some IndexError)"
proof -
  have a: "acc_at (be16 sample_cut 18) = 33"
    by (simp add: sample_cut_facts acc_at_eq bit_Suc_0_iff)
  have l: "acc_at (be16 sample_cut 18) < length sample_cut"
    "length sample_cut \<le> acc_at (be16 sample_cut 18) + 2"
    by (simp_all add: a sample_cut_facts(1))
  show ?thesis
    using trailing_block_no_realtime [OF l, of 1 sample_record]
    unfolding a sample_cut_facts(6) by simp
qed

text \<open>
  Claim C7 as stated fails on a frame cut after the ACC byte: the block raises IndexError
  at the realtime byte, and the record has \<open>status_bits\<close>.
\<close>

theorem trailing_failure_keeps_status_bits_counterexample:
  "decode_fixed sample_cut = Inr (sample_record, 1) \<and>
   snd (trailing_block sample_cut 1 sample_record) = Some IndexError \<and>
   decode_location_packet sample_cut = Inr (Some (sample_record\<lparr>status_bits := Some 3\<rparr>)) \<and>
   status_bits (sample_record\<lparr>status_bits := Some 3\<rparr>) \<noteq> None"
  using decode_location_packet_ok [OF sample_cut_facts(2)] sample_cut_fixed sample_cut_trailing
  by (simp add: decode_trailing_def sample_cut_facts)

theorem trailing_failure_keeps_fixed_fields_witness:
  "decode_fixed sample_cut = Inr (sample_record, 1) \<and>
   snd (trailing_block sample_cut 1 sample_record) = Some IndexError \<and>
   (\<exists>d. decode_location_packet sample_cut = Inr (Some d) \<and>
        timestamp d = timestamp sample_record \<and> gps_odometer d = None \<and>
        status_bits d \<noteq> None \<and> is_realtime d = None)"
proof -
  have t: "snd (trailing_block sample_cut 1 sample_record) = Some IndexError"
    by (simp only: sample_cut_trailing snd_conv)
  have a: "acc_at 724 = 33"
    by (simp add: acc_at_eq bit_Suc_0_iff)
  show ?thesis
    using trailing_failure_keeps_fixed_fields [OF sample_cut_fixed t] sample_cut_fixed t
    by (auto simp: a sample_cut_facts)
qed

section \<open>The encoders and the heartbeat handler\<close>

lemma str_nat_lt: "n < 10 \<Longrightarrow> str_nat n = [digit_char n]"
  by (simp add: str_nat.simps)

lemma str_nat_ge: "10 \<le> n \<Longrightarrow> str_nat n = str_nat (n div 10) @ [digit_char (n mod 10)]"
  by (subst str_nat.simps) simp

lemma replicate_pos: "0 < n \<Longrightarrow> replicate n x = x # replicate (n - 1) x"
  by (cases n) simp_all

lemmas str_eval = str_nat_lt str_nat_ge digit_char_def zfill_def replicate_pos strftime_Y_def

















lemmas builder_eval = build_suntech_packet_def base_fields_def bind_r_def get_item_def
  as_datetime_def last10_def dev_id_normalized_def isdigit_def strftime_Ymd_def strftime_HMS_def
  str_eval signed_6f_def float_ge0_def float_val_def fmt_f_def round_half_even_def Let_def
  fmt_int_2f_def get_status_bits_def output_status_field_def truthy_def telemetry_fields_def
  str_opt_def





section \<open>The alarm handler\<close>

lemma alarm_slice_fails: "decode_location_packet (slice body 0 16) = Inr None"
proof -
  have "length (slice body 0 16) < 18" by (simp add: length_slice)
  then have "\<not> fixed_ok (slice body 0 16)" by (simp add: fixed_ok_def)
  then show ?thesis by (rule decode_location_packet_fail)
qed

lemma handle_alarm_raises:
  assumes "21 \<le> length body"
  shows "handle_alarm_packet now st dev_id_str serial body =
           raised AttributeError st [] [DecodeFailed (slice body 0 16)]"
  using assms
  by (simp add: handle_alarm_packet_def alarm_slice_fails decode_log_def alarm_tail_def)

lemma handle_alarm_short:
  assumes "length body < 21"
  shows "handle_alarm_packet now st dev_id_str serial body = returned st [] [ShortAlarm body]"
  using assms by (simp add: handle_alarm_packet_def)

lemma effects_simps [simp]:
  "outcome (returned st ps ls) = Returned" "store_after (returned st ps ls) = st"
  "sent (returned st ps ls) = ps" "logs (returned st ps ls) = ls"
  "outcome (raised e st ps ls) = Raised e" "store_after (raised e st ps ls) = st"
  "sent (raised e st ps ls) = ps" "logs (raised e st ps ls) = ls"
  by (simp_all add: returned_def raised_def)

lemma alarm_send_logs:
  "outcome (alarm_send st d s body (ls @ ms) ald) = outcome (alarm_send st d s body ls ald)"
  "sent (alarm_send st d s body (ls @ ms) ald) = sent (alarm_send st d s body ls ald)"
  "store_after (alarm_send st d s body (ls @ ms) ald) = store_after (alarm_send st d s body ls ald)"
  by (simp_all add: alarm_send_def send_packet_def Let_def
      split: option.splits sum.splits)

lemma alarm_send_log_prefix:
  "\<exists>rest. \<forall>ls. logs (alarm_send st d s body ls ald) = ls @ rest"
proof -
  have "\<forall>ls. logs (alarm_send st d s body ls ald) = ls @ logs (alarm_send st d s body [] ald)"
    by (simp add: alarm_send_def send_packet_def Let_def split: option.splits sum.splits)
  then show ?thesis by blast
qed

lemma alarm_tail_staleness:
  "outcome (alarm_tail now1 st dev_id_str serial body ls r)
     = outcome (alarm_tail now2 st dev_id_str serial body ls r)"
  "sent (alarm_tail now1 st dev_id_str serial body ls r)
     = sent (alarm_tail now2 st dev_id_str serial body ls r)"
  "store_after (alarm_tail now1 st dev_id_str serial body ls r)
     = store_after (alarm_tail now2 st dev_id_str serial body ls r)"
  "filter (\<lambda>e. e \<noteq> AlarmFromMemory dev_id_str) (logs (alarm_tail now1 st dev_id_str serial body ls r))
     = filter (\<lambda>e. e \<noteq> AlarmFromMemory dev_id_str) (logs (alarm_tail now2 st dev_id_str serial body ls r))"
proof -
  show "outcome (alarm_tail now1 st dev_id_str serial body ls r)
     = outcome (alarm_tail now2 st dev_id_str serial body ls r)"
    by (simp add: alarm_tail_def is_after_limit_def alarm_send_logs
        split: option.splits ts_value.splits)
  show "sent (alarm_tail now1 st dev_id_str serial body ls r)
     = sent (alarm_tail now2 st dev_id_str serial body ls r)"
    by (simp add: alarm_tail_def is_after_limit_def alarm_send_logs
        split: option.splits ts_value.splits)
  show "store_after (alarm_tail now1 st dev_id_str serial body ls r)
     = store_after (alarm_tail now2 st dev_id_str serial body ls r)"
    by (simp add: alarm_tail_def is_after_limit_def alarm_send_logs
        split: option.splits ts_value.splits)
  show "filter (\<lambda>e. e \<noteq> AlarmFromMemory dev_id_str) (logs (alarm_tail now1 st dev_id_str serial body ls r))
     = filter (\<lambda>e. e \<noteq> AlarmFromMemory dev_id_str) (logs (alarm_tail now2 st dev_id_str serial body ls r))"
  proof (cases r)
    case None
    then show ?thesis by (simp add: alarm_tail_def)
  next
    case (Some ald)
    from alarm_send_log_prefix [of st dev_id_str serial body ald] obtain rest
      where rest: "\<And>ls. logs (alarm_send st dev_id_str serial body ls ald) = ls @ rest"
      by blast
    show ?thesis
      by (simp add: Some alarm_tail_def is_after_limit_def rest
          split: option.splits ts_value.splits)
  qed
qed

lemma alarm_tail_flags_stale:
  assumes "timestamp ald = Some (Dt t)"
    and "to_microseconds t \<le> to_microseconds now - 120000000"
  shows "AlarmFromMemory dev_id_str \<in> set (logs (alarm_tail now st dev_id_str serial body ls (Some ald)))"
proof -
  from alarm_send_log_prefix [of st dev_id_str serial body ald] obtain rest
    where rest: "\<And>ls. logs (alarm_send st dev_id_str serial body ls ald) = ls @ rest"
    by blast
  show ?thesis
    using assms by (simp add: alarm_tail_def is_after_limit_def truthy_ts_def rest)
qed


lemma sample_times:
  "to_microseconds \<lparr>year = 2024, month = 6, day = 1, hour = 12, minute = 0, second = 0,
      microsecond = 0\<rparr> = 63852926400000000"
  "to_microseconds \<lparr>year = 2024, month = 6, day = Suc 0, hour = 12, minute = 0, second = 0,
      microsecond = 0\<rparr> = 63852926400000000"
  "to_microseconds sample_now = 63852926430250000"
  "to_microseconds sample_late = 63852927000000000"
  by (simp_all add: to_microseconds_def days_before_year_def days_before_month_def
      days_in_month_def is_leap_def sample_now_def sample_late_def Let_def)


lemma sample_merge:
  "dict_merge sample_cached sample_record =
     sample_record\<lparr>status_bits := Some 3, is_realtime := Some True, gps_odometer := Some 258\<rparr>"
  by (simp add: dict_merge_def override_def sample_cached_def sample_record_def)

lemma sample_alt:
  "build_suntech_packet sample_store ''ALT'' sample_dev
       (sample_record\<lparr>status_bits := Some 3, is_realtime := Some True, gps_odometer := Some 258\<rparr>)
       7 True (Some 1) None =
     Inr ''ALT;4567890123;FFF83F;218;1.0.12;1;20240601;12:00:00;+90.000000;-45.000000;50.00;32.00;8;1;00000001;00000000;1;;;;00028003;12.43;0.0;258;1''"
  by (simp add: builder_eval sample_record_def sample_store_def empty_store_def sample_dev_def)

lemma sample_alarm_send:
  "alarm_send sample_store sample_dev 7 sample_alarm ls sample_record =
     returned sample_store
       [(sample_dev, 7, ''ALT;4567890123;FFF83F;218;1.0.12;1;20240601;12:00:00;+90.000000;-45.000000;50.00;32.00;8;1;00000001;00000000;1;;;;00028003;12.43;0.0;258;1'')]
       (ls @ [AlarmTranslated 6 1 sample_dev,
              PacketTranslated ''ALT;4567890123;FFF83F;218;1.0.12;1;20240601;12:00:00;+90.000000;-45.000000;50.00;32.00;8;1;00000001;00000000;1;;;;00028003;12.43;0.0;258;1''])"
proof -
  have c: "last_location_data (sample_store sample_dev) = Some sample_cached"
    by (simp add: sample_store_def)
  have n: "sample_record\<lparr>status_bits := Some 3, is_realtime := Some True, gps_odometer := Some 258\<rparr>
             \<noteq> empty_dict"
    by (simp add: sample_record_def empty_dict_def)
  have i: "index sample_alarm 17 = Inr 6"
    by (simp add: index_def sample_alarm_def sample_fixed_def)
  have m: "VL01_TO_SUNTECH_ALERT_MAP 6 = Some 1"
    by (simp add: VL01_TO_SUNTECH_ALERT_MAP_def)
  show ?thesis
    unfolding alarm_send_def c option.case sample_merge Let_def i sum.case m sample_alt
    using n by (simp add: send_packet_def encode_ascii_def is_ascii_def)
qed

lemma sample_timestamp:
  "timestamp sample_record = Some (Dt \<lparr>year = 2024, month = 6, day = 1, hour = 12, minute = 0,
      second = 0, microsecond = 0\<rparr>)"
  by (simp add: sample_record_def)

lemma sample_alarm_tail_fresh:
  "alarm_tail sample_now sample_store sample_dev 7 sample_alarm [] (Some sample_record) =
     returned sample_store
       [(sample_dev, 7, ''ALT;4567890123;FFF83F;218;1.0.12;1;20240601;12:00:00;+90.000000;-45.000000;50.00;32.00;8;1;00000001;00000000;1;;;;00028003;12.43;0.0;258;1'')]
       [AlarmTranslated 6 1 sample_dev,
        PacketTranslated ''ALT;4567890123;FFF83F;218;1.0.12;1;20240601;12:00:00;+90.000000;-45.000000;50.00;32.00;8;1;00000001;00000000;1;;;;00028003;12.43;0.0;258;1'']"
  by (simp add: alarm_tail_def sample_timestamp truthy_ts_def is_after_limit_def sample_times
      sample_alarm_send)

lemma sample_alarm_tail_stale:
  "alarm_tail sample_late sample_store sample_dev 7 sample_alarm [] (Some sample_record) =
     returned sample_store
       [(sample_dev, 7, ''ALT;4567890123;FFF83F;218;1.0.12;1;20240601;12:00:00;+90.000000;-45.000000;50.00;32.00;8;1;00000001;00000000;1;;;;00028003;12.43;0.0;258;1'')]
       [AlarmFromMemory sample_dev, AlarmTranslated 6 1 sample_dev,
        PacketTranslated ''ALT;4567890123;FFF83F;218;1.0.12;1;20240601;12:00:00;+90.000000;-45.000000;50.00;32.00;8;1;00000001;00000000;1;;;;00028003;12.43;0.0;258;1'']"
  by (simp add: alarm_tail_def sample_timestamp truthy_ts_def is_after_limit_def sample_times
      sample_alarm_send)

text \<open>
  Claim C3: a frame older than two minutes before now is flagged in a log line and
  processing goes on; the comparison never discards it. Lines 133 to 165 do so when they
  are reached (\<open>alarm_tail_staleness\<close>, \<open>sample_alarm_tail_stale\<close>), but the handler
  never reaches them: on this frame of 21 bytes, stamped 2024-06-01 12:00:00 and handled at
  12:10:00, it raises AttributeError before the limit is computed, logs no
  \<open>AlarmFromMemory\<close> line and sends nothing.
\<close>

theorem stale_alarm_is_not_flagged:
  "take 6 sample_alarm = [24, 6, 1, 12, 0, 0] \<and>
   to_microseconds \<lparr>year = 2024, month = 6, day = 1, hour = 12, minute = 0, second = 0,
      microsecond = 0\<rparr> \<le> to_microseconds sample_late - 120000000 \<and>
   handle_alarm_packet sample_late sample_store sample_dev 7 sample_alarm =
     raised AttributeError sample_store [] [DecodeFailed (slice sample_alarm 0 16)] \<and>
   AlarmFromMemory sample_dev
     \<notin> set (logs (handle_alarm_packet sample_late sample_store sample_dev 7 sample_alarm)) \<and>
   sent (handle_alarm_packet sample_late sample_store sample_dev 7 sample_alarm) = []"
proof -
  have l: "21 \<le> length sample_alarm" by (simp add: sample_alarm_def sample_fixed_def)
  have d: "take 6 sample_alarm = [24, 6, 1, 12, 0, 0]"
    by (simp add: sample_alarm_def sample_fixed_def)
  have old: "to_microseconds \<lparr>year = 2024, month = 6, day = 1, hour = 12, minute = 0,
      second = 0, microsecond = 0\<rparr> \<le> to_microseconds sample_late - 120000000"
    by (simp add: sample_times)
  from handle_alarm_raises [OF l, of sample_late sample_store sample_dev 7] d old
  show ?thesis by simp
qed

text \<open>
  Claim C1: the alarm handler decodes the first 16 bytes of a body of 21 bytes or more, and
  where the result has no timestamp the frame is dropped with a log line, no packet and no
  exception. The code decodes the first 16 bytes, but the decoder needs bytes 16 and 17 and
  returns None on every such slice; \<open>.get\<close> on None then raises AttributeError to the
  caller, as on this frame of 21 bytes.
\<close>

theorem alarm_decode_failure_raises:
  "length sample_alarm = 21 \<and>
   decode_location_packet (slice sample_alarm 0 16) = Inr None \<and>
   handle_alarm_packet sample_now sample_store sample_dev 7 sample_alarm =
     raised AttributeError sample_store [] [DecodeFailed (slice sample_alarm 0 16)]"
proof -
  have l: "length sample_alarm = 21" by (simp add: sample_alarm_def sample_fixed_def)
  then have "21 \<le> length sample_alarm" by simp
  from handle_alarm_raises [OF this] l alarm_slice_fails show ?thesis by simp
qed

text \<open>
  Claim C2: an alarm frame for a device without a cached location is dropped, with no packet
  and no error. On such a device the handler raises AttributeError, as for every alarm frame;
  and were the decoded record there, \<open>json.loads\<close> of the missing cache entry would raise
  TypeError before the test for an empty record.
\<close>

theorem alarm_without_cache_raises:
  "last_location_data (empty_store sample_dev) = None \<and>
   handle_alarm_packet sample_now empty_store sample_dev 7 sample_alarm =
     raised AttributeError empty_store [] [DecodeFailed (slice sample_alarm 0 16)] \<and>
   alarm_tail sample_now empty_store sample_dev 7 sample_alarm [] (Some sample_record) =
     raised TypeError empty_store [] []"
proof -
  have l: "21 \<le> length sample_alarm" by (simp add: sample_alarm_def sample_fixed_def)
  have e: "last_location_data (empty_store sample_dev) = None" by (simp add: empty_store_def)
  have t: "alarm_tail sample_now empty_store sample_dev 7 sample_alarm [] (Some sample_record) =
     raised TypeError empty_store [] []"
    by (simp add: alarm_tail_def sample_timestamp truthy_ts_def is_after_limit_def sample_times
        alarm_send_def e)
  from handle_alarm_raises [OF l] e t show ?thesis by simp
qed


lemma alert_table:
  "VL01_TO_SUNTECH_ALERT_MAP 0x01 = Some 42" "VL01_TO_SUNTECH_ALERT_MAP 0x02 = Some 41"
  "VL01_TO_SUNTECH_ALERT_MAP 0x03 = Some 15" "VL01_TO_SUNTECH_ALERT_MAP 0x04 = Some 6"
  "VL01_TO_SUNTECH_ALERT_MAP 0x05 = Some 5" "VL01_TO_SUNTECH_ALERT_MAP 0x06 = Some 1"
  "VL01_TO_SUNTECH_ALERT_MAP 0x19 = Some 14" "VL01_TO_SUNTECH_ALERT_MAP 0xF0 = Some 46"
  "VL01_TO_SUNTECH_ALERT_MAP 0xF1 = Some 47" "VL01_TO_SUNTECH_ALERT_MAP 0x13 = Some 147"
  "VL01_TO_SUNTECH_ALERT_MAP 0x14 = Some 73" "VL01_TO_SUNTECH_ALERT_MAP 0xFE = Some 33"
  "VL01_TO_SUNTECH_ALERT_MAP 0xFF = Some 34" "VL01_TO_SUNTECH_ALERT_MAP 0x42 = None"
  by (simp_all add: VL01_TO_SUNTECH_ALERT_MAP_def)

text \<open>
  Claim C4: the alarm code at byte 17 is looked up in the table, and a mapped code gives one
  ALT packet with its alert identifier. On this frame the code is 0x06, mapped to 1, and the
  device has a cached location, yet the handler raises AttributeError and sends nothing:
  the lookup is never reached.
\<close>

theorem mapped_alarm_sends_nothing:
  "index sample_alarm 17 = Inr 6 \<and> VL01_TO_SUNTECH_ALERT_MAP 6 = Some 1 \<and>
   last_location_data (sample_store sample_dev) = Some sample_cached \<and>
   outcome (handle_alarm_packet sample_now sample_store sample_dev 7 sample_alarm)
     = Raised AttributeError \<and>
   sent (handle_alarm_packet sample_now sample_store sample_dev 7 sample_alarm) = []"
proof -
  have l: "21 \<le> length sample_alarm" by (simp add: sample_alarm_def sample_fixed_def)
  have i: "index sample_alarm 17 = Inr 6"
    by (simp add: index_def sample_alarm_def sample_fixed_def)
  have c: "last_location_data (sample_store sample_dev) = Some sample_cached"
    by (simp add: sample_store_def)
  from handle_alarm_raises [OF l] i c alert_table(6) show ?thesis by simp
qed

section \<open>The location handler on the sample frame\<close>

lemma sample_location_decodes:
  "decode_location_packet sample_location =
     Inr (Some (sample_record\<lparr>status_bits := Some 3, is_realtime := Some True,
                               gps_odometer := Some 258\<rparr>))"
proof -
  have a: "acc_at (be16 sample_location 18) = 33"
    by (simp add: sample_mcc acc_at_eq bit_Suc_0_iff)
  have n: "length sample_location = 40"
    by (simp add: sample_location_def sample_fixed_def)
  have l: "acc_at (be16 sample_location 18) + 7 \<le> length sample_location"
    by (simp add: a n)
  have b: "bit (be16 sample_location 16) 12 = True" "unat (sample_location ! 33) = 1"
       "unat (sample_location ! (33 + 2)) = 0" "be32 sample_location (33 + 3) = 258"
    by (simp_all add: sample_location_def sample_fixed_def be16_def be32_def bit_Suc_0_iff)
  show ?thesis
    using decode_location_packet_ok [OF sample_location_ok] trailing_block_full [OF l]
    unfolding a fixed_record_samples b by (simp add: decode_trailing_def)
qed

lemma sample_location_handled:
  "handle_location_packet empty_store sample_dev 10003 sample_location =
     returned
       (empty_store(sample_dev :=
          \<lparr>last_location_data = Some (sample_record\<lparr>
               timestamp := Some (IsoStr ''2024-06-01T12:00:00''), status_bits := Some 3,
               is_realtime := Some True, gps_odometer := Some 258\<rparr>),
           last_output_status = None\<rparr>))
       [(sample_dev, 10003, ''STT;4567890123;FFF83F;218;1.0.12;1;20240601;12:00:00;+90.000000;-45.000000;50.00;32.00;8;1;00000001;00000000;1;1;0003;;00028003;12.43;0.0;258;1'')]
       [PacketTranslated ''STT;4567890123;FFF83F;218;1.0.12;1;20240601;12:00:00;+90.000000;-45.000000;50.00;32.00;8;1;00000001;00000000;1;1;0003;;00028003;12.43;0.0;258;1'']"
  unfolding handle_location_packet_def sample_location_decodes
  by (simp add: sample_record_def empty_dict_def strftime_iso_def builder_eval empty_store_def
      sample_dev_def send_packet_def encode_ascii_def is_ascii_def)

end
